theory Spec2Isabelle
  imports Complex_Main "HOL-Library.Monad_Syntax"
begin

section \<open>Exceptions, upstream outcomes and the observable world\<close>

text \<open>
  The middleware proxies two upstreams: the hospital system (module \<open>app/services/simplex.py\<close>)
  and a chat-completion API (module \<open>app/services/llm.py\<close>); \<open>app/main.py\<close> holds the
  two request handlers. Every Python exception that the source raises, catches or tests is a
  value of \<open>exn\<close>: its class, its \<open>str()\<close> text and the exception it was raised
  \<open>from\<close>. A class tag stands for "an instance that the source's \<open>except\<close> and
  \<open>retry_if_exception_type\<close> clauses see as this class".
\<close>

datatype exc_class =
    SimplexNetworkError | SimplexAuthError | SimplexNotFoundError
  | SimplexRateLimitError | SimplexClientError | SimplexServerError
  | TimeoutException | TransportError
  | RateLimitError | APIError | APIConnectionError | APITimeoutError | TimeoutError
  | ValidationError | IndexError | JSONDecodeError | RetryError | OtherException

datatype exn = Exn (exn_class: exc_class) (exn_message: string) (exn_cause: "exn option")

text \<open>Decoded JSON, as Python's \<open>response.json()\<close> returns it (a dict is read with \<open>map_of\<close>).\<close>

datatype json =
    JNull | JBool bool | JInt int | JFloat real | JStr string
  | JArr "json list" | JObj "(string \<times> json) list"

record http_request =
  http_method :: string
  url :: string
  params :: "(string \<times> string) list"
  json_body :: "json option"

text \<open>
  What \<open>httpx.AsyncClient.request\<close> does for one call: it raises, or it returns a response
  with a status code and a body; \<open>body\<close> is the outcome of \<open>response.json()\<close>.
\<close>

datatype http_outcome = Raises exn | Responds (status_code: int) (body: "exn + json")

text \<open>
  The chat-completion call: the request that \<open>client.chat.completions.create\<close> is given
  (the constant \<open>extra_headers\<close> and the empty \<open>**kwargs\<close> are left out), and what it
  does: it raises, or it returns a \<open>ChatCompletion\<close>. \<open>choices\<close> lists each choice's
  \<open>message.content\<close>, which the API types as \<open>Optional[str]\<close>.
\<close>

record chat_request =
  model_name :: string
  messages :: "(string \<times> string) list"
  temperature :: real

record chat_response =
  choices :: "string option list"
  usage :: "(int \<times> int \<times> int) option"
  response_model :: string

datatype chat_outcome = ChatRaises exn | ChatReturns chat_response

datatype level = Info | Warning | Error

text \<open>
  The world records what a run does that can be seen from outside: the requests sent to each
  upstream, the seconds slept between attempts, how many tokens and clock readings were
  drawn, and the log events (level and event name; the keyword fields are left out). The
  environment scripts what lies outside the program: the outcome of the n-th call to each
  upstream, the n-th \<open>uuid.uuid4()\<close>, the n-th reading of \<open>time.monotonic()\<close>, and
  the two configured constants the handlers read (\<open>LLMConfig.model\<close> and
  \<open>ANONYMIZE_PROMPT\<close>, a long text constant taken as a parameter).
\<close>

record world =
  simplex_sent :: "http_request list"
  chat_sent :: "chat_request list"
  slept :: "int list"
  uuids_drawn :: nat
  clock_reads :: nat
  logged :: "(level \<times> string) list"

record env =
  simplex_upstream :: "nat \<Rightarrow> http_outcome"
  chat_upstream :: "nat \<Rightarrow> chat_outcome"
  uuid_source :: "nat \<Rightarrow> string"
  clock :: "nat \<Rightarrow> real"
  config_model :: string
  ANONYMIZE_PROMPT :: string

definition log_event :: "level \<Rightarrow> string \<Rightarrow> world \<Rightarrow> world" where
  "log_event lv event w = w\<lparr>logged := logged w @ [(lv, event)]\<rparr>"

definition uuid4 :: "env \<Rightarrow> world \<Rightarrow> string \<times> world" where
  "uuid4 e w = (uuid_source e (uuids_drawn w), w\<lparr>uuids_drawn := Suc (uuids_drawn w)\<rparr>)"

definition monotonic :: "env \<Rightarrow> world \<Rightarrow> real \<times> world" where
  "monotonic e w = (clock e (clock_reads w), w\<lparr>clock_reads := Suc (clock_reads w)\<rparr>)"

section \<open>The retry policy (tenacity)\<close>

text \<open>
  Modelled from the spec: the decorator \<open>tenacity.retry\<close> and its strategies
  \<open>stop_after_attempt\<close>, \<open>wait_exponential\<close> and \<open>retry_if_exception_type\<close> are a
  third-party library, absent from the repository. Section 4.2 of the specification gives the
  contract (attempt up to N times, wait \<open>multiplier * base ^ (k - 1)\<close> seconds between
  attempt \<open>k\<close> and \<open>k + 1\<close>, capped, only matching failures retried, the last failure
  reraised unchanged); the definitions follow it, in the shape of the library's
  \<open>wait_exponential.__call__\<close> and \<open>Retrying.iter\<close>. The arguments are those written in
  \<open>simplex.py\<close> and \<open>llm.py\<close>.
\<close>

definition wait_exponential :: "int \<Rightarrow> int \<Rightarrow> int \<Rightarrow> int \<Rightarrow> nat \<Rightarrow> int" where
  "wait_exponential multiplier mx exp_base mn attempt_number =
     max (max 0 mn) (min (multiplier * exp_base ^ (attempt_number - 1)) mx)"

text \<open>
  Modelled from the spec: \<open>retry_if_exception_type\<close> (tenacity's, absent from the
  repository) is the predicate "only failures matching the retryable kinds trigger a retry":
  an \<open>isinstance\<close> test against the listed classes.
\<close>

definition retry_if_exception_type :: "exc_class list \<Rightarrow> exn \<Rightarrow> bool" where
  "retry_if_exception_type exception_types e = (exn_class e \<in> set exception_types)"

record retry_policy =
  reraise :: bool
  stop_after_attempt :: nat
  wait :: "nat \<Rightarrow> int"
  retry :: "exn \<Rightarrow> bool"
  before_sleep :: "world \<Rightarrow> world"

text \<open>
  Between two attempts: \<open>before_sleep\<close> logs, then the loop sleeps \<open>wait\<close> seconds.
\<close>

definition backoff :: "retry_policy \<Rightarrow> nat \<Rightarrow> world \<Rightarrow> world" where
  "backoff p attempt_number w =
     (before_sleep p w)\<lparr>slept := slept (before_sleep p w) @ [wait p attempt_number]\<rparr>"

text \<open>
  Modelled from the spec: the loop of tenacity's \<open>retry\<close> decorator (absent from the
  repository), section 4.2: a result or a failure that the predicate does not match leaves
  at once; a matching failure at the stop bound is reraised as it is (\<open>reraise=True\<close>;
  without it the library wraps it in \<open>RetryError\<close>); otherwise the loop logs, sleeps and
  tries again. It starts at attempt 1, \<open>f\<close> is the wrapped operation, and it ends because
  the attempt number rises to the stop bound.
\<close>

function retrying ::
  "retry_policy \<Rightarrow> (world \<Rightarrow> (exn + 'a) \<times> world) \<Rightarrow> nat \<Rightarrow> world \<Rightarrow> (exn + 'a) \<times> world" where
  "retrying p f attempt_number w =
     (let outcome = fst (f w); w1 = snd (f w) in
      case outcome of
        Inr v \<Rightarrow> (Inr v, w1)
      | Inl e \<Rightarrow>
          if \<not> retry p e then (Inl e, w1)
          else if attempt_number \<ge> stop_after_attempt p then
            (if reraise p then (Inl e, w1)
             else (Inl (Exn RetryError ''RetryError'' (Some e)), w1))
          else
            retrying p f (Suc attempt_number) (backoff p attempt_number w1))"
  by pat_completeness auto
termination
  by (relation "measure (\<lambda>(p, f, n, w). stop_after_attempt p - n)") auto

declare retrying.simps [simp del]

subsection \<open>The two configured policies\<close>

definition SIMPLEX_RETRY_ATTEMPTS :: nat where
  "SIMPLEX_RETRY_ATTEMPTS = 3"

definition simplex_retry :: retry_policy where
  "simplex_retry =
     \<lparr>reraise = True,
      stop_after_attempt = SIMPLEX_RETRY_ATTEMPTS,
      wait = wait_exponential 2 120 2 0,
      retry = retry_if_exception_type [SimplexNetworkError, SimplexServerError, SimplexRateLimitError],
      before_sleep = log_event Warning ''Retrying Simplex request''\<rparr>"

definition RETRY_ATTEMPTS_COUNT :: nat where
  "RETRY_ATTEMPTS_COUNT = 3"

definition openai_retry :: retry_policy where
  "openai_retry =
     \<lparr>reraise = True,
      stop_after_attempt = RETRY_ATTEMPTS_COUNT,
      wait = wait_exponential 2 120 2 0,
      retry = retry_if_exception_type
                [RateLimitError, APIError, APIConnectionError, APITimeoutError, TimeoutError],
      before_sleep = log_event Warning ''Retrying OpenAI call''\<rparr>"

section \<open>The visit-history payload (\<open>simplex.py\<close>, pydantic models)\<close>

record SimplexPatientVisitHistoryItem =
  Patient_Visit_Medical_Family_Social_History_Details_Serial_No :: string
  Patient_Basic_Details_Serial_No :: string
  Patient_Visit_Basic_Details_Serial_No :: string
  Past_MH :: string
  Is_Past_MH_a_Warning :: string
  Past_Surgical_MH :: string
  Is_Past_Surgical_MH_a_Warning :: string
  Other_Family_MH :: string
  Is_Other_Family_MH_a_Warning :: string
  Med_Fam_Social_History_Note :: string
  Is_Med_Fam_Social_History_Note_a_Warning :: string
  Permanent_MRN_No :: string
  Permanent_Visit_No :: string
  Patient_Visit_Registration_Note :: "string option"
  Patient_Visit_Registered_Date_Time :: string
  Active_Status :: string

record SimplexPatientVisitHistoryResponse =
  status :: bool
  message :: string
  data :: "SimplexPatientVisitHistoryItem list"

text \<open>
  \<open>BaseModel.model_validate\<close> is pydantic's, not the repository's; the field declarations
  are the repository's. A field declared \<open>str\<close> takes a string only. A field declared
  \<open>bool\<close> takes, in pydantic's default (lax) mode, a boolean, the numbers 0 and 1 and the
  documented spellings, compared in lower case. A field with a default (\<open>= None\<close>,
  \<open>Field(default_factory=list)\<close>) may be absent. Keys that no field names are ignored.
  JSON numbers that are not finite (NaN, Infinity) are outside \<open>JFloat\<close>.
\<close>

definition ascii_lower :: "char \<Rightarrow> char" where
  "ascii_lower c =
     (let n = (of_char c :: nat) in if 65 \<le> n \<and> n \<le> 90 then char_of (n + 32) else c)"

definition str_to_bool :: "string \<Rightarrow> bool option" where
  "str_to_bool s =
     (let l = map ascii_lower s in
      if s = ''0'' \<or> l \<in> set [''f'', ''n'', ''no'', ''off'', ''false''] then Some False
      else if s = ''1'' \<or> l \<in> set [''t'', ''y'', ''on'', ''yes'', ''true''] then Some True
      else None)"

fun validate_bool :: "json \<Rightarrow> bool option" where
  "validate_bool (JBool b) = Some b"
| "validate_bool (JInt i) = (if i = 0 then Some False else if i = 1 then Some True else None)"
| "validate_bool (JFloat x) = (if x = 0 then Some False else if x = 1 then Some True else None)"
| "validate_bool (JStr s) = str_to_bool s"
| "validate_bool _ = None"

fun validate_str :: "json \<Rightarrow> string option" where
  "validate_str (JStr s) = Some s"
| "validate_str _ = None"

fun validate_optional_str :: "json \<Rightarrow> string option option" where
  "validate_optional_str JNull = Some None"
| "validate_optional_str (JStr s) = Some (Some s)"
| "validate_optional_str _ = None"

text \<open>A required field: absent is an error. A field with a default: absent is the default.\<close>

definition required :: "(json \<Rightarrow> 'a option) \<Rightarrow> (string \<times> json) list \<Rightarrow> string \<Rightarrow> 'a option" where
  "required validate obj k = (case map_of obj k of None \<Rightarrow> None | Some v \<Rightarrow> validate v)"

definition with_default ::
  "'a \<Rightarrow> (json \<Rightarrow> 'a option) \<Rightarrow> (string \<times> json) list \<Rightarrow> string \<Rightarrow> 'a option" where
  "with_default d validate obj k = (case map_of obj k of None \<Rightarrow> Some d | Some v \<Rightarrow> validate v)"

definition validate_item :: "json \<Rightarrow> SimplexPatientVisitHistoryItem option" where
  "validate_item j =
     (case j of
        JObj obj \<Rightarrow>
          do {
            a1 \<leftarrow> required validate_str obj ''Patient_Visit_Medical_Family_Social_History_Details_Serial_No'';
            a2 \<leftarrow> required validate_str obj ''Patient_Basic_Details_Serial_No'';
            a3 \<leftarrow> required validate_str obj ''Patient_Visit_Basic_Details_Serial_No'';
            a4 \<leftarrow> required validate_str obj ''Past_MH'';
            a5 \<leftarrow> required validate_str obj ''Is_Past_MH_a_Warning'';
            a6 \<leftarrow> required validate_str obj ''Past_Surgical_MH'';
            a7 \<leftarrow> required validate_str obj ''Is_Past_Surgical_MH_a_Warning'';
            a8 \<leftarrow> required validate_str obj ''Other_Family_MH'';
            a9 \<leftarrow> required validate_str obj ''Is_Other_Family_MH_a_Warning'';
            a10 \<leftarrow> required validate_str obj ''Med_Fam_Social_History_Note'';
            a11 \<leftarrow> required validate_str obj ''Is_Med_Fam_Social_History_Note_a_Warning'';
            a12 \<leftarrow> required validate_str obj ''Permanent_MRN_No'';
            a13 \<leftarrow> required validate_str obj ''Permanent_Visit_No'';
            a14 \<leftarrow> with_default None validate_optional_str obj ''Patient_Visit_Registration_Note'';
            a15 \<leftarrow> required validate_str obj ''Patient_Visit_Registered_Date_Time'';
            a16 \<leftarrow> required validate_str obj ''Active_Status'';
            Some \<lparr>Patient_Visit_Medical_Family_Social_History_Details_Serial_No = a1,
                  Patient_Basic_Details_Serial_No = a2,
                  Patient_Visit_Basic_Details_Serial_No = a3,
                  Past_MH = a4,
                  Is_Past_MH_a_Warning = a5,
                  Past_Surgical_MH = a6,
                  Is_Past_Surgical_MH_a_Warning = a7,
                  Other_Family_MH = a8,
                  Is_Other_Family_MH_a_Warning = a9,
                  Med_Fam_Social_History_Note = a10,
                  Is_Med_Fam_Social_History_Note_a_Warning = a11,
                  Permanent_MRN_No = a12,
                  Permanent_Visit_No = a13,
                  Patient_Visit_Registration_Note = a14,
                  Patient_Visit_Registered_Date_Time = a15,
                  Active_Status = a16\<rparr>
          }
      | _ \<Rightarrow> None)"

fun validate_items :: "json \<Rightarrow> SimplexPatientVisitHistoryItem list option" where
  "validate_items (JArr xs) = those (map validate_item xs)"
| "validate_items _ = None"

definition validation_error :: exn where
  "validation_error =
     Exn ValidationError ''validation error for SimplexPatientVisitHistoryResponse'' None"

definition model_validate :: "json \<Rightarrow> exn + SimplexPatientVisitHistoryResponse" where
  "model_validate payload =
     (case payload of
        JObj obj \<Rightarrow>
          (case do {
                  s \<leftarrow> required validate_bool obj ''status'';
                  m \<leftarrow> required validate_str obj ''message'';
                  d \<leftarrow> with_default [] validate_items obj ''data'';
                  Some \<lparr>status = s, message = m, data = d\<rparr>
                } of
             None \<Rightarrow> Inl validation_error
           | Some r \<Rightarrow> Inr r)
      | _ \<Rightarrow> Inl validation_error)"

section \<open>The visit-history client (\<open>SimplexService\<close>)\<close>

text \<open>Python's \<open>str\<close> of an integer, for the status codes formatted into messages.\<close>

fun str_nat :: "nat \<Rightarrow> string" where
  "str_nat n =
     (if n < 10 then [char_of (48 + n)] else str_nat (n div 10) @ [char_of (48 + n mod 10)])"

declare str_nat.simps [simp del]

definition str_int :: "int \<Rightarrow> string" where
  "str_int i = (if i < 0 then CHR ''-'' # str_nat (nat (- i)) else str_nat (nat i))"

definition send_request :: "env \<Rightarrow> http_request \<Rightarrow> world \<Rightarrow> http_outcome \<times> world" where
  "send_request e rq w =
     (simplex_upstream e (length (simplex_sent w)), w\<lparr>simplex_sent := simplex_sent w @ [rq]\<rparr>)"

definition log_error_response :: "exn + json \<Rightarrow> world \<Rightarrow> world" where
  "log_error_response b w =
     (case b of
        Inr j \<Rightarrow> log_event Error ''simplex_error_response'' w
      | Inl x \<Rightarrow> log_event Error ''simplex_error_response'' w)"

text \<open>
  The body of \<open>SimplexService._request\<close>, one attempt: the function that the decorator
  \<open>@simplex_retry\<close> wraps. An exception of the client that is neither a timeout nor a
  transport error is not caught and leaves the function as it is.
\<close>

definition request_attempt :: "env \<Rightarrow> http_request \<Rightarrow> world \<Rightarrow> (exn + json) \<times> world" where
  "request_attempt e rq w =
     (let (start_ts, w1) = monotonic e w;
          (response, w2) = send_request e rq w1
      in case response of
           Raises exc \<Rightarrow>
             if exn_class exc = TimeoutException \<or> exn_class exc = TransportError then
               (Inl (Exn SimplexNetworkError ''Network error during Simplex request'' (Some exc)),
                log_event Warning ''network_error'' w2)
             else (Inl exc, w2)
         | Responds sc b \<Rightarrow>
             if 200 \<le> sc \<and> sc < 300 then
               (let (now, w3) = monotonic e w2;
                    w4 = log_event Info ''success'' w3
                in case b of
                     Inr j \<Rightarrow> (Inr j, w4)
                   | Inl exc \<Rightarrow>
                       (Inl (Exn SimplexClientError ''Failed to parse JSON response'' (Some exc)),
                        log_event Error ''invalid_json'' w4))
             else if sc = 401 then
               (Inl (Exn SimplexAuthError ''Unauthorized: invalid Simplex API token'' None),
                log_error_response b w2)
             else if sc = 404 then
               (Inl (Exn SimplexNotFoundError ''Resource not found in Simplex'' None),
                log_error_response b w2)
             else if sc = 429 then
               (Inl (Exn SimplexRateLimitError ''Rate limit exceeded'' None),
                log_error_response b w2)
             else if 400 \<le> sc \<and> sc < 500 then
               (Inl (Exn SimplexClientError (''Client error from Simplex: '' @ str_int sc) None),
                log_error_response b w2)
             else if sc \<ge> 500 then
               (Inl (Exn SimplexServerError (''Server error from Simplex: '' @ str_int sc) None),
                log_error_response b w2)
             else
               (Inl (Exn SimplexClientError (''Unexpected status from Simplex: '' @ str_int sc) None),
                log_error_response b w2))"

text \<open>\<open>_request\<close> as its callers see it: the attempt under \<open>@simplex_retry\<close>.\<close>

definition request :: "env \<Rightarrow> http_request \<Rightarrow> world \<Rightarrow> (exn + json) \<times> world" where
  "request e rq w = retrying simplex_retry (request_attempt e rq) 1 w"

definition get_patient_visit_history ::
  "env \<Rightarrow> string \<Rightarrow> string \<Rightarrow> world \<Rightarrow> (exn + SimplexPatientVisitHistoryResponse) \<times> world" where
  "get_patient_visit_history e permanent_mrn_no permanent_visit_no w =
     (let w1 = log_event Info ''Fetching patient visit history from Simplex v2'' w;
          (payload, w2) =
             request e
               \<lparr>http_method = ''GET'', url = ''/api/v2/patient-visit-histories'',
                params = [(''permanent_mrn_no'', permanent_mrn_no),
                          (''permanent_visit_no'', permanent_visit_no)],
                json_body = None\<rparr> w1
      in case payload of
           Inl exc \<Rightarrow> (Inl exc, w2)
         | Inr j \<Rightarrow> (model_validate j, w2))"

section \<open>The text-anonymization client (\<open>LLMService\<close>)\<close>

definition create :: "env \<Rightarrow> chat_request \<Rightarrow> world \<Rightarrow> chat_outcome \<times> world" where
  "create e rq w =
     (chat_upstream e (length (chat_sent w)), w\<lparr>chat_sent := chat_sent w @ [rq]\<rparr>)"

definition log_response :: "env \<Rightarrow> chat_response \<Rightarrow> real \<Rightarrow> world \<Rightarrow> world" where
  "log_response e response start_time w =
     (let (now, w1) = monotonic e w in
      if usage response = None then
        log_event Warning ''No usage data in response; skipping cost calculation'' w1
      else log_event Info ''Chat completion completed'' w1)"

text \<open>
  \<open>chat_completion\<close> carries no decorator: \<open>openai_retry\<close> is defined in the module and
  applied nowhere. Both \<open>except\<close> clauses log and raise the exception again.
  \<open>response.choices[0]\<close> raises \<open>IndexError\<close> on an empty list, as Python's indexing does.
\<close>

definition chat_completion ::
  "env \<Rightarrow> string \<Rightarrow> string option \<Rightarrow> real \<Rightarrow> string option \<Rightarrow> world
     \<Rightarrow> (exn + string option) \<times> world" where
  "chat_completion e prompt system_prompt temp model w =
     (let (start_time, w1) = monotonic e w;
          model' = (case model of None \<Rightarrow> config_model e | Some m \<Rightarrow> m);
          msgs = [(''user'', prompt)];
          msgs' = (case system_prompt of
                     None \<Rightarrow> msgs
                   | Some sp \<Rightarrow> if sp \<noteq> [] then (''system'', sp) # msgs else msgs);
          w2 = log_event Info ''Starting structured generation'' w1;
          (response, w3) =
             create e \<lparr>model_name = model', messages = msgs', temperature = temp\<rparr> w2
      in case response of
           ChatRaises exc \<Rightarrow>
             if exn_class exc \<in> set [RateLimitError, APIError, APIConnectionError,
                                       APITimeoutError, TimeoutError]
             then (Inl exc, log_event Error ''Chat completion attempt failed'' w3)
             else (Inl exc, log_event Error ''Chat completion failed'' w3)
         | ChatReturns r \<Rightarrow>
             (let w4 = log_response e r start_time w3 in
              case choices r of
                [] \<Rightarrow> (Inl (Exn IndexError ''list index out of range'' None), w4)
              | c # cs \<Rightarrow> (Inr c, w4)))"

definition LLMService_anonymize ::
  "env \<Rightarrow> string \<Rightarrow> real \<Rightarrow> world \<Rightarrow> (exn + string option) \<times> world" where
  "LLMService_anonymize e txt temp w =
     chat_completion e txt (Some (ANONYMIZE_PROMPT e)) temp None w"

section \<open>The request handlers (\<open>main.py\<close>)\<close>

record AnonymizationMeta =
  correlation_id :: string
  elapsed_s :: real

record AnonymizationResponse =
  anonymized :: string
  meta :: AnonymizationMeta

text \<open>
  A handler returns its response model (FastAPI answers 200) or raises \<open>HTTPException\<close>
  with a status code and a detail.
\<close>

datatype 'a reply = Returned 'a | HTTPException int string

fun http_status :: "'a reply \<Rightarrow> int" where
  "http_status (Returned r) = 200"
| "http_status (HTTPException code detail) = code"

text \<open>
  Python's \<open>round(x, 2)\<close>, on the real value of the float: to the nearest multiple of
  0.01, a tie to the even one.
\<close>

definition py_round :: "real \<Rightarrow> int" where
  "py_round x =
     (let f = \<lfloor>x\<rfloor>; d = x - of_int f in
      if d < 1 / 2 then f else if 1 / 2 < d then f + 1 else if even f then f else f + 1)"

definition round_ndigits :: "real \<Rightarrow> nat \<Rightarrow> real" where
  "round_ndigits x ndigits = of_int (py_round (x * 10 ^ ndigits)) / 10 ^ ndigits"

definition anonymize :: "env \<Rightarrow> string \<Rightarrow> world \<Rightarrow> AnonymizationResponse reply \<times> world" where
  "anonymize e request_data w =
     (let (corr_id, w1) = uuid4 e w;
          (start_time, w2) = monotonic e w1;
          (result, w3) = LLMService_anonymize e request_data (7 / 10) w2
      in case result of
           Inl exc \<Rightarrow>
             (HTTPException 500 (exn_message exc), log_event Error ''Anonymization failed'' w3)
         | Inr None \<Rightarrow>
             (HTTPException 500 ''No anonymized data returned'',
              log_event Error ''No anonymized data returned'' w3)
         | Inr (Some a) \<Rightarrow>
             (let w4 = log_event Info ''Anonymized data'' w3;
                  (now, w5) = monotonic e w4;
                  elapsed = round_ndigits (now - start_time) 2;
                  w6 = log_event Info ''Anonymization completed'' w5
              in (Returned \<lparr>anonymized = a,
                            meta = \<lparr>correlation_id = corr_id, elapsed_s = elapsed\<rparr>\<rparr>, w6)))"

definition patient_visit_histories ::
  "env \<Rightarrow> string \<Rightarrow> string \<Rightarrow> world \<Rightarrow> SimplexPatientVisitHistoryResponse reply \<times> world" where
  "patient_visit_histories e permanent_mrn_no permanent_visit_no w =
     (let (fetched, w1) = get_patient_visit_history e permanent_mrn_no permanent_visit_no w
      in case fetched of
           Inl exc \<Rightarrow>
             (HTTPException 502 ''Failed to fetch patient visit history'',
              log_event Error ''Simplex patient visit history fetch failed'' w1)
         | Inr resp \<Rightarrow>
             (let (result, w2) = LLMService_anonymize e (message resp) (7 / 10) w1;
                  (anonymized_message, w3) =
                     (case result of
                        Inl exc \<Rightarrow> (None, log_event Error ''Message anonymization failed'' w2)
                      | Inr m \<Rightarrow> (m, w2));
                  anonymized_message' =
                     (case anonymized_message of None \<Rightarrow> message resp | Some m \<Rightarrow> m)
              in (Returned (resp\<lparr>message := anonymized_message'\<rparr>), w3)))"

section \<open>The claims' own vocabulary\<close>

text \<open>
  The failure kinds of the specification and the exception class that carries each. The
  mapping is partial: an exception of another class is none of the six.
\<close>

datatype failure = Network | Auth | NotFound | RateLimited | ClientError | ServerError

fun failure_of :: "exc_class \<Rightarrow> failure option" where
  "failure_of SimplexNetworkError = Some Network"
| "failure_of SimplexAuthError = Some Auth"
| "failure_of SimplexNotFoundError = Some NotFound"
| "failure_of SimplexRateLimitError = Some RateLimited"
| "failure_of SimplexClientError = Some ClientError"
| "failure_of SimplexServerError = Some ServerError"
| "failure_of _ = None"

definition outcome_kind :: "exn + json \<Rightarrow> (failure + json) option" where
  "outcome_kind r =
     (case r of Inr j \<Rightarrow> Some (Inr j) | Inl x \<Rightarrow> map_option Inl (failure_of (exn_class x)))"

text \<open>
  The classification of a response as the specification lists it (section 4.1, steps 2 to
  8), first match first.
\<close>

definition classification :: "int \<Rightarrow> exn + json \<Rightarrow> failure + json" where
  "classification sc b =
     (if 200 \<le> sc \<and> sc < 300 then (case b of Inr j \<Rightarrow> Inr j | Inl x \<Rightarrow> Inl ClientError)
      else if sc = 401 then Inl Auth
      else if sc = 404 then Inl NotFound
      else if sc = 429 then Inl RateLimited
      else if 400 \<le> sc \<and> sc < 500 then Inl ClientError
      else if 500 \<le> sc then Inl ServerError
      else Inl ClientError)"

text \<open>
  The shape of a visit-history payload, in words: an object whose \<open>status\<close> is a boolean
  (or one of the lax spellings), whose \<open>message\<close> is a string, and whose \<open>data\<close>, when
  present, is a list of objects that each hold the fifteen required fields as strings and,
  when present, a registration note that is a string or null.
\<close>

fun is_string :: "json \<Rightarrow> bool" where
  "is_string (JStr s) = True"
| "is_string _ = False"

fun is_string_or_null :: "json \<Rightarrow> bool" where
  "is_string_or_null (JStr s) = True"
| "is_string_or_null JNull = True"
| "is_string_or_null _ = False"

fun is_lax_bool :: "json \<Rightarrow> bool" where
  "is_lax_bool (JBool b) = True"
| "is_lax_bool (JInt i) = (i \<in> {0, 1})"
| "is_lax_bool (JFloat x) = (x \<in> {0, 1})"
| "is_lax_bool (JStr s) =
     (s \<in> {''0'', ''1''} \<or>
      map ascii_lower s \<in>
        {''f'', ''n'', ''no'', ''off'', ''false'', ''t'', ''y'', ''on'', ''yes'', ''true''})"
| "is_lax_bool _ = False"

definition present :: "(json \<Rightarrow> bool) \<Rightarrow> (string \<times> json) list \<Rightarrow> string \<Rightarrow> bool" where
  "present P obj k = (case map_of obj k of None \<Rightarrow> False | Some v \<Rightarrow> P v)"

definition absent_or :: "(json \<Rightarrow> bool) \<Rightarrow> (string \<times> json) list \<Rightarrow> string \<Rightarrow> bool" where
  "absent_or P obj k = (case map_of obj k of None \<Rightarrow> True | Some v \<Rightarrow> P v)"

definition required_item_fields :: "string list" where
  "required_item_fields =
     [''Patient_Visit_Medical_Family_Social_History_Details_Serial_No'',
      ''Patient_Basic_Details_Serial_No'',
      ''Patient_Visit_Basic_Details_Serial_No'',
      ''Past_MH'',
      ''Is_Past_MH_a_Warning'',
      ''Past_Surgical_MH'',
      ''Is_Past_Surgical_MH_a_Warning'',
      ''Other_Family_MH'',
      ''Is_Other_Family_MH_a_Warning'',
      ''Med_Fam_Social_History_Note'',
      ''Is_Med_Fam_Social_History_Note_a_Warning'',
      ''Permanent_MRN_No'',
      ''Permanent_Visit_No'',
      ''Patient_Visit_Registered_Date_Time'',
      ''Active_Status'']"

fun item_conforms :: "json \<Rightarrow> bool" where
  "item_conforms (JObj obj) =
     (list_all (present is_string obj) required_item_fields \<and>
      absent_or is_string_or_null obj ''Patient_Visit_Registration_Note'')"
| "item_conforms _ = False"

fun items_conform :: "json \<Rightarrow> bool" where
  "items_conform (JArr xs) = list_all item_conforms xs"
| "items_conform _ = False"

fun conforms :: "json \<Rightarrow> bool" where
  "conforms (JObj obj) =
     (present is_lax_bool obj ''status'' \<and> present is_string obj ''message'' \<and>
      absent_or items_conform obj ''data'')"
| "conforms _ = False"

text \<open>
  What a returned record says about the payload it came from, in the payload's own terms.
  \<open>reads_as v b\<close>: the value \<open>v\<close> of a field declared \<open>bool\<close> stands for \<open>b\<close> (a
  boolean for itself, 1 and 0, and the lax spellings). \<open>item_matches x it\<close>: \<open>x\<close> is an
  object, each of the fifteen required fields of \<open>it\<close> is the string the object holds
  under that name, and the registration note of \<open>it\<close> is the object's string, or none when
  the object has no note or a null one.
\<close>

fun reads_as :: "json \<Rightarrow> bool \<Rightarrow> bool" where
  "reads_as (JBool c) b = (b = c)"
| "reads_as (JInt i) b = (if b then i = 1 else i = 0)"
| "reads_as (JFloat x) b = (if b then x = 1 else x = 0)"
| "reads_as (JStr s) b =
     (if b then s = ''1'' \<or> map ascii_lower s \<in> {''t'', ''y'', ''on'', ''yes'', ''true''}
      else s = ''0'' \<or> map ascii_lower s \<in> {''f'', ''n'', ''no'', ''off'', ''false''})"
| "reads_as _ b = False"

fun item_matches :: "json \<Rightarrow> SimplexPatientVisitHistoryItem \<Rightarrow> bool" where
  "item_matches (JObj obj) it =
     (map_of obj ''Patient_Visit_Medical_Family_Social_History_Details_Serial_No'' =
        Some (JStr (Patient_Visit_Medical_Family_Social_History_Details_Serial_No it))
      \<and> map_of obj ''Patient_Basic_Details_Serial_No'' =
          Some (JStr (Patient_Basic_Details_Serial_No it))
      \<and> map_of obj ''Patient_Visit_Basic_Details_Serial_No'' =
          Some (JStr (Patient_Visit_Basic_Details_Serial_No it))
      \<and> map_of obj ''Past_MH'' = Some (JStr (Past_MH it))
      \<and> map_of obj ''Is_Past_MH_a_Warning'' = Some (JStr (Is_Past_MH_a_Warning it))
      \<and> map_of obj ''Past_Surgical_MH'' = Some (JStr (Past_Surgical_MH it))
      \<and> map_of obj ''Is_Past_Surgical_MH_a_Warning'' =
          Some (JStr (Is_Past_Surgical_MH_a_Warning it))
      \<and> map_of obj ''Other_Family_MH'' = Some (JStr (Other_Family_MH it))
      \<and> map_of obj ''Is_Other_Family_MH_a_Warning'' =
          Some (JStr (Is_Other_Family_MH_a_Warning it))
      \<and> map_of obj ''Med_Fam_Social_History_Note'' =
          Some (JStr (Med_Fam_Social_History_Note it))
      \<and> map_of obj ''Is_Med_Fam_Social_History_Note_a_Warning'' =
          Some (JStr (Is_Med_Fam_Social_History_Note_a_Warning it))
      \<and> map_of obj ''Permanent_MRN_No'' = Some (JStr (Permanent_MRN_No it))
      \<and> map_of obj ''Permanent_Visit_No'' = Some (JStr (Permanent_Visit_No it))
      \<and> map_of obj ''Patient_Visit_Registered_Date_Time'' =
          Some (JStr (Patient_Visit_Registered_Date_Time it))
      \<and> map_of obj ''Active_Status'' = Some (JStr (Active_Status it))
      \<and> Patient_Visit_Registration_Note it =
          (case map_of obj ''Patient_Visit_Registration_Note'' of
             Some (JStr s) \<Rightarrow> Some s
           | _ \<Rightarrow> None))"
| "item_matches _ it = False"

section \<open>Concrete runs\<close>

definition world0 :: world where
  "world0 =
     \<lparr>simplex_sent = [], chat_sent = [], slept = [], uuids_drawn = 0, clock_reads = 0,
      logged = []\<rparr>"

definition example_env :: "(nat \<Rightarrow> http_outcome) \<Rightarrow> (nat \<Rightarrow> chat_outcome) \<Rightarrow> env" where
  "example_env simplex chat =
     \<lparr>simplex_upstream = simplex, chat_upstream = chat,
      uuid_source = (\<lambda>n. ''token-'' @ str_nat n), clock = (\<lambda>n. real n / 8),
      config_model = ''model-a'',
      ANONYMIZE_PROMPT = ''You are a medical data anonymization specialist.''\<rparr>"

definition visit_request :: http_request where
  "visit_request =
     \<lparr>http_method = ''GET'', url = ''/api/v2/patient-visit-histories'',
      params = [(''permanent_mrn_no'', ''M1''), (''permanent_visit_no'', ''V1'')],
      json_body = None\<rparr>"

definition headache :: json where
  "headache =
     JObj [(''status'', JBool True), (''message'', JStr ''Patient reports headache''),
           (''data'', JArr [])]"

definition headache_without_data :: json where
  "headache_without_data =
     JObj [(''status'', JBool True), (''message'', JStr ''Patient reports headache'')]"

definition status_only :: json where
  "status_only = JObj [(''status'', JBool True)]"

definition visit_item :: json where
  "visit_item =
     JObj [(''Patient_Visit_Medical_Family_Social_History_Details_Serial_No'', JStr ''17''),
           (''Patient_Basic_Details_Serial_No'', JStr ''4''),
           (''Patient_Visit_Basic_Details_Serial_No'', JStr ''9''),
           (''Past_MH'', JStr ''asthma''),
           (''Is_Past_MH_a_Warning'', JStr ''N''),
           (''Past_Surgical_MH'', JStr []),
           (''Is_Past_Surgical_MH_a_Warning'', JStr ''N''),
           (''Other_Family_MH'', JStr ''diabetes''),
           (''Is_Other_Family_MH_a_Warning'', JStr ''Y''),
           (''Med_Fam_Social_History_Note'', JStr ''non-smoker''),
           (''Is_Med_Fam_Social_History_Note_a_Warning'', JStr ''N''),
           (''Permanent_MRN_No'', JStr ''M1''),
           (''Permanent_Visit_No'', JStr ''V1''),
           (''Patient_Visit_Registered_Date_Time'', JStr ''2024-05-01 10:30:00''),
           (''Active_Status'', JStr ''1'')]"

definition visit_record :: SimplexPatientVisitHistoryItem where
  "visit_record =
     \<lparr>Patient_Visit_Medical_Family_Social_History_Details_Serial_No = ''17'',
      Patient_Basic_Details_Serial_No = ''4'',
      Patient_Visit_Basic_Details_Serial_No = ''9'',
      Past_MH = ''asthma'',
      Is_Past_MH_a_Warning = ''N'',
      Past_Surgical_MH = [],
      Is_Past_Surgical_MH_a_Warning = ''N'',
      Other_Family_MH = ''diabetes'',
      Is_Other_Family_MH_a_Warning = ''Y'',
      Med_Fam_Social_History_Note = ''non-smoker'',
      Is_Med_Fam_Social_History_Note_a_Warning = ''N'',
      Permanent_MRN_No = ''M1'',
      Permanent_Visit_No = ''V1'',
      Patient_Visit_Registration_Note = None,
      Patient_Visit_Registered_Date_Time = ''2024-05-01 10:30:00'',
      Active_Status = ''1''\<rparr>"

definition headache_with_visit :: json where
  "headache_with_visit =
     JObj [(''status'', JBool True), (''message'', JStr ''Patient reports headache''),
           (''data'', JArr [visit_item])]"

definition timed_out :: exn where
  "timed_out = Exn APITimeoutError ''Request timed out.'' None"

definition completion :: "string option list \<Rightarrow> chat_outcome" where
  "completion cs = ChatReturns \<lparr>choices = cs, usage = None, response_model = ''model-a''\<rparr>"

definition unavailable_env :: env where
  "unavailable_env =
     example_env (\<lambda>n. Responds 503 (Inl (Exn JSONDecodeError ''Expecting value'' None)))
       (\<lambda>n. ChatRaises timed_out)"

definition not_found_env :: env where
  "not_found_env =
     example_env (\<lambda>n. Responds 404 (Inr (JObj [(''detail'', JStr ''Not Found'')])))
       (\<lambda>n. ChatRaises timed_out)"

definition unreachable_env :: env where
  "unreachable_env =
     example_env (\<lambda>n. Raises (Exn TimeoutException ''timed out'' None))
       (\<lambda>n. ChatRaises timed_out)"

definition visit_env :: "json \<Rightarrow> chat_outcome \<Rightarrow> env" where
  "visit_env payload chat = example_env (\<lambda>n. Responds 200 (Inr payload)) (\<lambda>n. chat)"

definition decoding_env :: env where
  "decoding_env =
     example_env (\<lambda>n. Raises (Exn OtherException ''Error -3 while decompressing data'' None))
       (\<lambda>n. ChatRaises timed_out)"

definition noted_item :: json where
  "noted_item =
     JObj ((''Patient_Visit_Registration_Note'', JStr ''walk-in'') #
           (case visit_item of JObj obj \<Rightarrow> obj | _ \<Rightarrow> []))"

definition two_visits :: json where
  "two_visits =
     JObj [(''status'', JInt 1), (''message'', JStr ''Patient reports headache''),
           (''data'', JArr [noted_item, visit_item])]"

definition headache_yes :: json where
  "headache_yes =
     JObj [(''status'', JStr ''yes''), (''message'', JStr ''Patient reports headache''),
           (''data'', JArr [])]"

section \<open>Facts about single steps\<close>

lemma attempt_sent: "simplex_sent (snd (request_attempt e rq w)) = simplex_sent w @ [rq]"
  by (simp add: request_attempt_def monotonic_def send_request_def log_event_def
      log_error_response_def Let_def split: http_outcome.splits sum.splits prod.splits)

lemma attempt_slept: "slept (snd (request_attempt e rq w)) = slept w"
  by (simp add: request_attempt_def monotonic_def send_request_def log_event_def
      log_error_response_def Let_def split: http_outcome.splits sum.splits prod.splits)

lemma retry_simplex [simp]:
  "retry simplex_retry x \<longleftrightarrow>
     exn_class x \<in> {SimplexNetworkError, SimplexServerError, SimplexRateLimitError}"
  by (auto simp add: simplex_retry_def retry_if_exception_type_def)

lemma stop_simplex [simp]: "stop_after_attempt simplex_retry = 3" "reraise simplex_retry"
  by (simp_all add: simplex_retry_def SIMPLEX_RETRY_ATTEMPTS_def)

lemma wait_simplex: "wait simplex_retry n = min (2 * 2 ^ (n - 1)) 120"
  by (simp add: simplex_retry_def wait_exponential_def)

lemma backoff_sent [simp]: "simplex_sent (backoff simplex_retry k w) = simplex_sent w"
  by (simp add: backoff_def simplex_retry_def log_event_def)

lemma backoff_slept [simp]:
  "slept (backoff simplex_retry k w) = slept w @ [wait simplex_retry k]"
  by (simp add: backoff_def simplex_retry_def log_event_def)

lemma str_int_503: "str_int 503 = ''503''"
  by code_simp

text \<open>The loop of \<open>request\<close>, unrolled: the stop bound is 3, so at most three attempts.\<close>

lemma request_unfold:
  "request e rq w =
    (case request_attempt e rq w of
       (Inr v, w1) \<Rightarrow> (Inr v, w1)
     | (Inl x1, w1) \<Rightarrow>
         if \<not> retry simplex_retry x1 then (Inl x1, w1)
         else (case request_attempt e rq (backoff simplex_retry 1 w1) of
                (Inr v, w2) \<Rightarrow> (Inr v, w2)
              | (Inl x2, w2) \<Rightarrow>
                  if \<not> retry simplex_retry x2 then (Inl x2, w2)
                  else request_attempt e rq (backoff simplex_retry 2 w2)))"
  unfolding request_def
  apply (subst retrying.simps)
  apply (subst retrying.simps)
  apply (subst retrying.simps)
  apply (auto simp add: Let_def numeral_2_eq_2 numeral_3_eq_3 prod_eq_iff
      split: prod.splits sum.splits)
  done

section \<open>The retry policy of the visit-history client\<close>

text \<open>
  Claim C2. Every call of \<open>_request\<close> invokes the wrapped operation at least once and at
  most three times. A failure whose class is none of the three retryable ones ends the call
  with that one invocation (on the first attempt, and likewise on the second after a
  retryable first failure). Three failures of retryable classes in a row make three
  invocations. In every case the failure that reaches the caller is the very value that the
  last invocation raised, with the world as that invocation left it: nothing wraps it and
  nothing is added to it.
\<close>

theorem request_retry_policy:
  "(1 \<le> length (simplex_sent (snd (request e rq w))) - length (simplex_sent w)
      \<and> length (simplex_sent (snd (request e rq w))) - length (simplex_sent w) \<le> 3)
   \<and> (request_attempt e rq w = (Inl x, w1)
        \<and> exn_class x \<notin> {SimplexNetworkError, SimplexServerError, SimplexRateLimitError}
      \<longrightarrow> request e rq w = (Inl x, w1)
          \<and> length (simplex_sent w1) = length (simplex_sent w) + 1)
   \<and> (request_attempt e rq w = (Inl x1, v1)
        \<and> exn_class x1 \<in> {SimplexNetworkError, SimplexServerError, SimplexRateLimitError}
        \<and> request_attempt e rq (backoff simplex_retry 1 v1) = (Inl x2, v2)
        \<and> exn_class x2 \<notin> {SimplexNetworkError, SimplexServerError, SimplexRateLimitError}
      \<longrightarrow> request e rq w = (Inl x2, v2))
   \<and> (request_attempt e rq w = (Inl x1, v1)
        \<and> exn_class x1 \<in> {SimplexNetworkError, SimplexServerError, SimplexRateLimitError}
        \<and> request_attempt e rq (backoff simplex_retry 1 v1) = (Inl x2, v2)
        \<and> exn_class x2 \<in> {SimplexNetworkError, SimplexServerError, SimplexRateLimitError}
        \<and> request_attempt e rq (backoff simplex_retry 2 v2) = (r3, v3)
      \<longrightarrow> request e rq w = (r3, v3)
          \<and> length (simplex_sent v3) = length (simplex_sent w) + 3)
   \<and> (request e rq w = (Inl y, w') \<longrightarrow> (\<exists>u. request_attempt e rq u = (Inl y, w')))"
proof (intro conjI impI)
  obtain r1 u1 where a1: "request_attempt e rq w = (r1, u1)"
    by (cases "request_attempt e rq w")
  obtain r2 u2 where a2: "request_attempt e rq (backoff simplex_retry 1 u1) = (r2, u2)"
    by (cases "request_attempt e rq (backoff simplex_retry 1 u1)")
  obtain r3' u3 where a3: "request_attempt e rq (backoff simplex_retry 2 u2) = (r3', u3)"
    by (cases "request_attempt e rq (backoff simplex_retry 2 u2)")
  have s1: "simplex_sent u1 = simplex_sent w @ [rq]"
    using attempt_sent[of e rq w] a1 by simp
  have s2: "simplex_sent u2 = simplex_sent w @ [rq, rq]"
    using attempt_sent[of e rq "backoff simplex_retry 1 u1"] a2 s1 by simp
  have s3: "simplex_sent u3 = simplex_sent w @ [rq, rq, rq]"
    using attempt_sent[of e rq "backoff simplex_retry 2 u2"] a3 s2 by simp
  have "snd (request e rq w) \<in> {u1, u2, u3}"
    using a1 a2 a3 by (auto simp add: request_unfold split: sum.splits)
  then have len:
    "length (simplex_sent (snd (request e rq w))) - length (simplex_sent w) \<in> {1, 2, 3}"
    using s1 s2 s3 by auto
  show "1 \<le> length (simplex_sent (snd (request e rq w))) - length (simplex_sent w)"
    using len by auto
  show "length (simplex_sent (snd (request e rq w))) - length (simplex_sent w) \<le> 3"
    using len by auto
  {
    assume "request e rq w = (Inl y, w')"
    then have "(Inl y, w') \<in> {(r1, u1), (r2, u2), (r3', u3)}"
      using a1 a2 a3 by (auto simp add: request_unfold split: sum.splits if_splits)
    then show "\<exists>u. request_attempt e rq u = (Inl y, w')"
      using a1 a2 a3 by auto
  }
next
  assume h: "request_attempt e rq w = (Inl x, w1)
        \<and> exn_class x \<notin> {SimplexNetworkError, SimplexServerError, SimplexRateLimitError}"
  then show "request e rq w = (Inl x, w1)"
    by (simp add: request_unfold)
  show "length (simplex_sent w1) = length (simplex_sent w) + 1"
    using attempt_sent[of e rq w] h by simp
next
  assume "request_attempt e rq w = (Inl x1, v1)
        \<and> exn_class x1 \<in> {SimplexNetworkError, SimplexServerError, SimplexRateLimitError}
        \<and> request_attempt e rq (backoff simplex_retry 1 v1) = (Inl x2, v2)
        \<and> exn_class x2 \<notin> {SimplexNetworkError, SimplexServerError, SimplexRateLimitError}"
  then show "request e rq w = (Inl x2, v2)"
    by (simp add: request_unfold)
next
  assume h: "request_attempt e rq w = (Inl x1, v1)
        \<and> exn_class x1 \<in> {SimplexNetworkError, SimplexServerError, SimplexRateLimitError}
        \<and> request_attempt e rq (backoff simplex_retry 1 v1) = (Inl x2, v2)
        \<and> exn_class x2 \<in> {SimplexNetworkError, SimplexServerError, SimplexRateLimitError}
        \<and> request_attempt e rq (backoff simplex_retry 2 v2) = (r3, v3)"
  then show "request e rq w = (r3, v3)"
    by (simp add: request_unfold)
  have "simplex_sent v1 = simplex_sent w @ [rq]"
    using attempt_sent[of e rq w] h by simp
  moreover have "simplex_sent v2 = simplex_sent (backoff simplex_retry 1 v1) @ [rq]"
    using attempt_sent[of e rq "backoff simplex_retry 1 v1"] h by simp
  moreover have "simplex_sent v3 = simplex_sent (backoff simplex_retry 2 v2) @ [rq]"
    using attempt_sent[of e rq "backoff simplex_retry 2 v2"] h by simp
  ultimately show "length (simplex_sent v3) = length (simplex_sent w) + 3"
    by simp
qed

theorem request_retry_policy_witness:
  "fst (request unavailable_env visit_request world0) =
     Inl (Exn SimplexServerError ''Server error from Simplex: 503'' None)
   \<and> simplex_sent (snd (request unavailable_env visit_request world0)) =
       [visit_request, visit_request, visit_request]
   \<and> slept (snd (request unavailable_env visit_request world0)) = [2, 4]
   \<and> fst (request not_found_env visit_request world0) =
       Inl (Exn SimplexNotFoundError ''Resource not found in Simplex'' None)
   \<and> simplex_sent (snd (request not_found_env visit_request world0)) = [visit_request]
   \<and> slept (snd (request not_found_env visit_request world0)) = []"
proof -
  let ?x = "Exn SimplexServerError ''Server error from Simplex: 503'' None"
  let ?y = "Exn SimplexNotFoundError ''Resource not found in Simplex'' None"
  have f: "fst (request_attempt unavailable_env visit_request u) = Inl ?x" for u
    by (simp add: request_attempt_def unavailable_env_def example_env_def monotonic_def
        send_request_def str_int_503 split: prod.splits)
  define u1 where "u1 = snd (request_attempt unavailable_env visit_request world0)"
  define u2 where
    "u2 = snd (request_attempt unavailable_env visit_request (backoff simplex_retry 1 u1))"
  define u3 where
    "u3 = snd (request_attempt unavailable_env visit_request (backoff simplex_retry 2 u2))"
  have a1: "request_attempt unavailable_env visit_request world0 = (Inl ?x, u1)"
    by (simp add: prod_eq_iff f u1_def)
  have a2: "request_attempt unavailable_env visit_request (backoff simplex_retry 1 u1) = (Inl ?x, u2)"
    by (simp add: prod_eq_iff f u2_def)
  have a3: "request_attempt unavailable_env visit_request (backoff simplex_retry 2 u2) = (Inl ?x, u3)"
    by (simp add: prod_eq_iff f u3_def)
  have r: "request unavailable_env visit_request world0 = (Inl ?x, u3)"
    using request_retry_policy[of unavailable_env visit_request world0 _ _ ?x u1 ?x u2 "Inl ?x" u3]
      a1 a2 a3 by simp
  have s1: "simplex_sent u1 = [visit_request]" "slept u1 = []"
    unfolding u1_def by (simp_all add: attempt_sent attempt_slept world0_def)
  have s2: "simplex_sent u2 = [visit_request, visit_request]" "slept u2 = [2]"
    unfolding u2_def by (simp_all add: attempt_sent attempt_slept s1 wait_simplex)
  have s: "simplex_sent u3 = [visit_request, visit_request, visit_request]"
    unfolding u3_def by (simp add: attempt_sent s2)
  have t: "slept u3 = [2, 4]"
    unfolding u3_def by (simp add: attempt_slept s2 wait_simplex)
  define n1 where "n1 = snd (request_attempt not_found_env visit_request world0)"
  have b1: "request_attempt not_found_env visit_request world0 = (Inl ?y, n1)"
    by (simp add: prod_eq_iff n1_def request_attempt_def not_found_env_def example_env_def
        monotonic_def send_request_def split: prod.splits)
  have q: "request not_found_env visit_request world0 = (Inl ?y, n1)"
    using request_retry_policy[of not_found_env visit_request world0 ?y n1] b1 by simp
  have "simplex_sent n1 = [visit_request]" "slept n1 = []"
    unfolding n1_def by (simp_all add: attempt_sent attempt_slept world0_def)
  then show ?thesis
    by (simp add: r s t q)
qed

section \<open>The backoff schedule\<close>

lemma unavailable_attempt:
  "fst (request_attempt unavailable_env visit_request u) =
     Inl (Exn SimplexServerError ''Server error from Simplex: 503'' None)"
  by (simp add: request_attempt_def unavailable_env_def example_env_def monotonic_def
      send_request_def str_int_503 split: prod.splits)

lemma unavailable_slept:
  "slept (snd (request unavailable_env visit_request world0)) = [2, 4]"
  by (simp add: request_unfold case_prod_beta unavailable_attempt attempt_slept wait_simplex
      world0_def)

text \<open>
  Claim C3, as stated: the wait before attempt 2 is 4 seconds and the wait before attempt 3 is
  8 seconds. The wait before attempt \<open>k + 1\<close> is the one computed after attempt \<open>k\<close>,
  \<open>wait p k\<close>; after the first attempt it is 2 seconds, not 4, and a call whose three
  attempts all fail sleeps 2 and then 4 seconds, not 4 and then 8.
\<close>

theorem backoff_schedule_counterexample:
  "\<not> (wait simplex_retry 1 = 4 \<and> wait simplex_retry 2 = 8)
   \<and> slept (snd (request unavailable_env visit_request world0)) \<noteq> [4, 8]"
  by (simp add: unavailable_slept) (simp add: simplex_retry_def wait_exponential_def)

text \<open>
  Claim C3, amended. In both configured policies the wait after attempt \<open>k\<close> is
  \<open>2 * 2 ^ (k - 1)\<close> seconds capped at 120: 2 seconds before attempt 2, 4 seconds before
  attempt 3, and never more than 120 seconds (nor less than 0) for any attempt number.
\<close>

theorem backoff_schedule:
  "wait simplex_retry 1 = 2 \<and> wait simplex_retry 2 = 4
   \<and> wait simplex_retry k = min (2 * 2 ^ (k - 1)) 120
   \<and> 0 \<le> wait simplex_retry k \<and> wait simplex_retry k \<le> 120
   \<and> wait openai_retry 1 = 2 \<and> wait openai_retry 2 = 4
   \<and> wait openai_retry k = min (2 * 2 ^ (k - 1)) 120
   \<and> 0 \<le> wait openai_retry k \<and> wait openai_retry k \<le> 120"
  by (simp add: simplex_retry_def openai_retry_def wait_exponential_def)

section \<open>Classification of one outbound request\<close>

text \<open>
  Claim C4, as stated: the classification is total, every outcome of a request becomes the
  decoded value or one of the six failure kinds. \<open>_request\<close> catches timeouts and transport
  errors only; when the client raises anything else (a decoding error for one), that
  exception leaves the attempt as it is, and it is none of the six kinds.
\<close>

theorem unclassified_exception_counterexample:
  "simplex_upstream decoding_env (length (simplex_sent world0)) =
     Raises (Exn OtherException ''Error -3 while decompressing data'' None)
   \<and> fst (request_attempt decoding_env visit_request world0) =
       Inl (Exn OtherException ''Error -3 while decompressing data'' None)
   \<and> outcome_kind (fst (request_attempt decoding_env visit_request world0)) = None"
  by (simp add: request_attempt_def decoding_env_def example_env_def monotonic_def
      send_request_def outcome_kind_def world0_def)

text \<open>
  Claim C4, amended. One attempt of \<open>_request\<close> classifies a timeout or transport exception
  and every response exactly as the specification lists it: a timeout or transport exception
  becomes a Network failure, and a response is classified by \<open>classification\<close> (2xx with a
  decodable body gives the decoded value, 2xx with an undecodable body ClientError, 401 Auth,
  404 NotFound, 429 RateLimited, another 4xx ClientError, 500 and above ServerError, anything
  else ClientError), so that on these outcomes the result is always the decoded value or one
  of the six failure kinds. Any other exception of the client is not classified: it is not
  caught and reaches the caller of the attempt unchanged.
\<close>

theorem request_attempt_classification:
  "(simplex_upstream e (length (simplex_sent w)) = Raises x
      \<and> exn_class x \<in> {TimeoutException, TransportError}
    \<longrightarrow> outcome_kind (fst (request_attempt e rq w)) = Some (Inl Network))
   \<and> (simplex_upstream e (length (simplex_sent w)) = Responds sc b
    \<longrightarrow> outcome_kind (fst (request_attempt e rq w)) = Some (classification sc b))
   \<and> (simplex_upstream e (length (simplex_sent w)) = Raises x
      \<and> exn_class x \<notin> {TimeoutException, TransportError}
    \<longrightarrow> fst (request_attempt e rq w) = Inl x)"
  by (auto simp add: request_attempt_def monotonic_def send_request_def outcome_kind_def
      classification_def Let_def split: sum.splits)

theorem request_attempt_classification_witness:
  "outcome_kind (fst (request_attempt unreachable_env visit_request world0)) = Some (Inl Network)
   \<and> classification 404 (Inr (JObj [(''detail'', JStr ''Not Found'')])) = Inl NotFound
   \<and> outcome_kind (fst (request_attempt not_found_env visit_request world0)) = Some (Inl NotFound)
   \<and> fst (request_attempt decoding_env visit_request world0) =
       Inl (Exn OtherException ''Error -3 while decompressing data'' None)"
proof -
  have "simplex_upstream unreachable_env (length (simplex_sent world0)) =
          Raises (Exn TimeoutException ''timed out'' None)"
    by (simp add: unreachable_env_def example_env_def)
  moreover have "simplex_upstream not_found_env (length (simplex_sent world0)) =
          Responds 404 (Inr (JObj [(''detail'', JStr ''Not Found'')]))"
    by (simp add: not_found_env_def example_env_def)
  moreover have "simplex_upstream decoding_env (length (simplex_sent world0)) =
          Raises (Exn OtherException ''Error -3 while decompressing data'' None)"
    by (simp add: decoding_env_def example_env_def)
  ultimately show ?thesis
    using request_attempt_classification[of unreachable_env world0
        "Exn TimeoutException ''timed out'' None" visit_request]
      request_attempt_classification[of not_found_env world0 _ visit_request 404
        "Inr (JObj [(''detail'', JStr ''Not Found'')])"]
      request_attempt_classification[of decoding_env world0
        "Exn OtherException ''Error -3 while decompressing data'' None" visit_request]
    by (simp add: classification_def)
qed

section \<open>The text-anonymization client\<close>

lemma anonymize_result:
  "fst (LLMService_anonymize e txt temp w) =
     (case chat_upstream e (length (chat_sent w)) of
        ChatRaises x \<Rightarrow> Inl x
      | ChatReturns r \<Rightarrow>
          (case choices r of
             [] \<Rightarrow> Inl (Exn IndexError ''list index out of range'' None)
           | c # cs \<Rightarrow> Inr c))"
  by (simp add: LLMService_anonymize_def chat_completion_def monotonic_def create_def
      log_event_def Let_def split: chat_outcome.splits list.splits)

lemma anonymize_effects:
  "length (chat_sent (snd (LLMService_anonymize e txt temp w))) = Suc (length (chat_sent w))
   \<and> slept (snd (LLMService_anonymize e txt temp w)) = slept w
   \<and> simplex_sent (snd (LLMService_anonymize e txt temp w)) = simplex_sent w
   \<and> uuids_drawn (snd (LLMService_anonymize e txt temp w)) = uuids_drawn w"
  by (simp add: LLMService_anonymize_def chat_completion_def monotonic_def create_def
      log_event_def log_response_def Let_def split: chat_outcome.splits list.splits)

lemma anonymize_handler_result:
  "fst (anonymize e d w) =
     (case fst (LLMService_anonymize e d (7 / 10) (snd (monotonic e (snd (uuid4 e w))))) of
        Inl x \<Rightarrow> HTTPException 500 (exn_message x)
      | Inr None \<Rightarrow> HTTPException 500 ''No anonymized data returned''
      | Inr (Some a) \<Rightarrow>
          Returned
            \<lparr>anonymized = a,
             meta = \<lparr>correlation_id = uuid_source e (uuids_drawn w),
                     elapsed_s =
                       round_ndigits
                         (clock e (clock_reads (snd (LLMService_anonymize e d (7 / 10)
                                     (snd (monotonic e (snd (uuid4 e w)))))))
                          - clock e (clock_reads w)) 2\<rparr>\<rparr>)"
  by (simp add: anonymize_def uuid4_def monotonic_def log_event_def Let_def case_prod_beta
      split: sum.splits option.splits)

lemma anonymize_handler_world:
  "snd (anonymize e d w) =
     (let u = snd (LLMService_anonymize e d (7 / 10) (snd (monotonic e (snd (uuid4 e w))))) in
      case fst (LLMService_anonymize e d (7 / 10) (snd (monotonic e (snd (uuid4 e w))))) of
        Inl x \<Rightarrow> log_event Error ''Anonymization failed'' u
      | Inr None \<Rightarrow> log_event Error ''No anonymized data returned'' u
      | Inr (Some a) \<Rightarrow>
          log_event Info ''Anonymization completed''
            (snd (monotonic e (log_event Info ''Anonymized data'' u))))"
  by (simp add: anonymize_def Let_def case_prod_beta split: sum.splits option.splits)

text \<open>
  Claim C1, on the code. \<open>openai_retry\<close> would retry a timeout, but \<open>chat_completion\<close> is
  not decorated with it: when the upstream call times out every time, \<open>anonymize\<close> makes
  one chat-completion call, sleeps never, and the handler answers 500 after that single
  attempt.
\<close>

theorem anonymize_single_attempt:
  "retry openai_retry timed_out
   \<and> fst (LLMService_anonymize (visit_env headache (ChatRaises timed_out)) ''some note''
            (7 / 10) world0) = Inl timed_out
   \<and> length (chat_sent (snd (LLMService_anonymize (visit_env headache (ChatRaises timed_out))
            ''some note'' (7 / 10) world0))) = 1
   \<and> slept (snd (LLMService_anonymize (visit_env headache (ChatRaises timed_out))
            ''some note'' (7 / 10) world0)) = []
   \<and> fst (anonymize (visit_env headache (ChatRaises timed_out)) ''some note'' world0) =
       HTTPException 500 ''Request timed out.''
   \<and> length (chat_sent (snd (anonymize (visit_env headache (ChatRaises timed_out))
            ''some note'' world0))) = 1"
proof -
  let ?e = "visit_env headache (ChatRaises timed_out)"
  have a: "retry openai_retry timed_out"
    by (simp add: openai_retry_def retry_if_exception_type_def timed_out_def)
  have b: "fst (LLMService_anonymize ?e ''some note'' (7 / 10) u) = Inl timed_out" for u
    by (simp add: anonymize_result visit_env_def example_env_def)
  have c: "length (chat_sent (snd (LLMService_anonymize ?e ''some note'' (7 / 10) world0))) = 1"
    "slept (snd (LLMService_anonymize ?e ''some note'' (7 / 10) world0)) = []"
    by (simp_all add: anonymize_effects world0_def)
  have d: "fst (anonymize ?e ''some note'' world0) = HTTPException 500 ''Request timed out.''"
    by (simp add: anonymize_handler_result b) (simp add: timed_out_def)
  have "length (chat_sent (snd (anonymize ?e ''some note'' world0))) = 1"
    by (simp add: anonymize_handler_world b anonymize_effects log_event_def monotonic_def
        uuid4_def world0_def Let_def)
  then show ?thesis
    using a b c d by simp
qed

text \<open>
  Claim C8, as stated: a response whose \<open>choices\<close> list is empty makes \<open>anonymize\<close>
  return none. It does not: \<open>response.choices[0]\<close> raises \<open>IndexError\<close>.
\<close>

theorem anonymize_empty_choices_counterexample:
  "chat_upstream (visit_env headache (completion [])) 0 = completion []
   \<and> fst (LLMService_anonymize (visit_env headache (completion [])) ''some note'' (7 / 10)
            world0) = Inl (Exn IndexError ''list index out of range'' None)
   \<and> fst (LLMService_anonymize (visit_env headache (completion [])) ''some note'' (7 / 10)
            world0) \<noteq> Inr None"
  by (simp add: anonymize_result visit_env_def example_env_def completion_def world0_def)

text \<open>
  Claim C8, amended. When the upstream call returns a response with at least one choice,
  \<open>anonymize\<close> returns the message content of the first choice: the text, or none when
  that content is absent.
\<close>

theorem anonymize_first_choice:
  "chat_upstream e (length (chat_sent w)) = ChatReturns r \<and> choices r = c # cs
   \<longrightarrow> fst (LLMService_anonymize e txt temp w) = Inr c"
  by (simp add: anonymize_result)

theorem anonymize_first_choice_witness:
  "fst (LLMService_anonymize
          (visit_env headache (completion [Some ''Patient_001 reports headache'', None]))
          ''Patient reports headache'' (7 / 10) world0) = Inr (Some ''Patient_001 reports headache'')
   \<and> fst (LLMService_anonymize (visit_env headache (completion [None]))
          ''Patient reports headache'' (7 / 10) world0) = Inr None"
  using anonymize_first_choice[of
      "visit_env headache (completion [Some ''Patient_001 reports headache'', None])" world0
      "\<lparr>choices = [Some ''Patient_001 reports headache'', None], usage = None,
        response_model = ''model-a''\<rparr>"
      "Some ''Patient_001 reports headache''" "[None]" "''Patient reports headache''" "7 / 10"]
    anonymize_first_choice[of "visit_env headache (completion [None])" world0
      "\<lparr>choices = [None], usage = None, response_model = ''model-a''\<rparr>"
      None "[]" "''Patient reports headache''" "7 / 10"]
  by (simp add: visit_env_def example_env_def completion_def world0_def)

section \<open>The request handlers\<close>

lemma request_2xx:
  assumes "simplex_upstream e (length (simplex_sent w)) = Responds sc (Inr j)"
    and "200 \<le> sc" and "sc < 300"
  shows "fst (request e rq w) = Inr j"
    and "simplex_sent (snd (request e rq w)) = simplex_sent w @ [rq]"
    and "slept (snd (request e rq w)) = slept w"
proof -
  have a: "fst (request_attempt e rq w) = Inr j"
    using assms
    by (simp add: request_attempt_def monotonic_def send_request_def Let_def case_prod_beta)
  then have "request e rq w = request_attempt e rq w"
    by (simp add: request_unfold prod_eq_iff case_prod_beta)
  then show "fst (request e rq w) = Inr j"
    and "simplex_sent (snd (request e rq w)) = simplex_sent w @ [rq]"
    and "slept (snd (request e rq w)) = slept w"
    using a by (simp_all add: attempt_sent attempt_slept)
qed

lemma request_not_retried:
  assumes "fst (request_attempt e rq w) = Inl x"
    and "exn_class x \<notin> {SimplexNetworkError, SimplexServerError, SimplexRateLimitError}"
  shows "request e rq w = request_attempt e rq w"
  using assms by (simp add: request_unfold prod_eq_iff case_prod_beta)

lemma get_patient_visit_history_result:
  "fst (get_patient_visit_history e mrn visit w) =
     (case fst (request e
                 \<lparr>http_method = ''GET'', url = ''/api/v2/patient-visit-histories'',
                  params = [(''permanent_mrn_no'', mrn), (''permanent_visit_no'', visit)],
                  json_body = None\<rparr>
                 (log_event Info ''Fetching patient visit history from Simplex v2'' w)) of
        Inl x \<Rightarrow> Inl x
      | Inr j \<Rightarrow> model_validate j)"
  by (simp add: get_patient_visit_history_def Let_def case_prod_beta split: sum.splits)

lemma get_patient_visit_history_world:
  "snd (get_patient_visit_history e mrn visit w) =
     snd (request e
           \<lparr>http_method = ''GET'', url = ''/api/v2/patient-visit-histories'',
            params = [(''permanent_mrn_no'', mrn), (''permanent_visit_no'', visit)],
            json_body = None\<rparr>
           (log_event Info ''Fetching patient visit history from Simplex v2'' w))"
  by (simp add: get_patient_visit_history_def Let_def case_prod_beta split: sum.splits)

lemma patient_visit_histories_result:
  "fst (patient_visit_histories e mrn visit w) =
     (case fst (get_patient_visit_history e mrn visit w) of
        Inl x \<Rightarrow> HTTPException 502 ''Failed to fetch patient visit history''
      | Inr resp \<Rightarrow>
          Returned
            (resp\<lparr>message :=
               (case fst (LLMService_anonymize e (message resp) (7 / 10)
                            (snd (get_patient_visit_history e mrn visit w))) of
                  Inr (Some m) \<Rightarrow> m
                | _ \<Rightarrow> message resp)\<rparr>))"
  by (simp add: patient_visit_histories_def Let_def case_prod_beta
      split: sum.splits option.splits)

lemma model_validate_headache:
  "model_validate headache =
     Inr \<lparr>status = True, message = ''Patient reports headache'', data = []\<rparr>"
  by (simp add: model_validate_def headache_def required_def with_default_def)

lemma fetch_headache:
  "fst (get_patient_visit_history (visit_env headache chat) ''M1'' ''V1'' world0) =
     Inr \<lparr>status = True, message = ''Patient reports headache'', data = []\<rparr>"
  by (simp add: get_patient_visit_history_result model_validate_headache
      request_2xx(1)[where sc = 200 and j = headache] visit_env_def example_env_def)

lemma fetch_not_found:
  "fst (get_patient_visit_history not_found_env ''M1'' ''V1'' world0) =
     Inl (Exn SimplexNotFoundError ''Resource not found in Simplex'' None)"
proof -
  have "fst (request_attempt not_found_env rq u) =
          Inl (Exn SimplexNotFoundError ''Resource not found in Simplex'' None)" for rq u
    by (simp add: request_attempt_def not_found_env_def example_env_def monotonic_def
        send_request_def case_prod_beta)
  then have "fst (request not_found_env rq u) =
          Inl (Exn SimplexNotFoundError ''Resource not found in Simplex'' None)" for rq u
    using request_not_retried[of not_found_env rq u] by simp
  then show ?thesis
    by (simp add: get_patient_visit_history_result)
qed

text \<open>
  Claim C5. When the visit-history fetch raises anything, the handler answers 502. When the
  fetch succeeds, the handler answers 200 whatever the anonymization of the message does: if
  that call raises or returns none the fetched response is returned with its original
  message, and if it returns a text the message is replaced by it.
\<close>

theorem patient_visit_histories_paths:
  "(fst (get_patient_visit_history e mrn visit w) = Inl x
    \<longrightarrow> fst (patient_visit_histories e mrn visit w) =
          HTTPException 502 ''Failed to fetch patient visit history'')
   \<and> (get_patient_visit_history e mrn visit w = (Inr resp, w1)
        \<and> (fst (LLMService_anonymize e (message resp) (7 / 10) w1) = Inl y
           \<or> fst (LLMService_anonymize e (message resp) (7 / 10) w1) = Inr None)
    \<longrightarrow> fst (patient_visit_histories e mrn visit w) = Returned resp)
   \<and> (get_patient_visit_history e mrn visit w = (Inr resp, w1)
        \<and> fst (LLMService_anonymize e (message resp) (7 / 10) w1) = Inr (Some m)
    \<longrightarrow> fst (patient_visit_histories e mrn visit w) = Returned (resp\<lparr>message := m\<rparr>))
   \<and> (get_patient_visit_history e mrn visit w = (Inr resp, w1)
    \<longrightarrow> http_status (fst (patient_visit_histories e mrn visit w)) = 200)"
  by (auto simp add: patient_visit_histories_result split: sum.splits option.splits)

theorem patient_visit_histories_paths_witness:
  "fst (patient_visit_histories not_found_env ''M1'' ''V1'' world0) =
     HTTPException 502 ''Failed to fetch patient visit history''
   \<and> fst (patient_visit_histories (visit_env headache (ChatRaises timed_out)) ''M1'' ''V1'' world0) =
       Returned \<lparr>status = True, message = ''Patient reports headache'', data = []\<rparr>
   \<and> fst (patient_visit_histories (visit_env headache (completion [None])) ''M1'' ''V1'' world0) =
       Returned \<lparr>status = True, message = ''Patient reports headache'', data = []\<rparr>
   \<and> fst (patient_visit_histories
            (visit_env headache (completion [Some ''Patient_001 reports headache'']))
            ''M1'' ''V1'' world0) =
       Returned \<lparr>status = True, message = ''Patient_001 reports headache'', data = []\<rparr>"
proof -
  let ?resp = "\<lparr>status = True, message = ''Patient reports headache'', data = []\<rparr>"
  have f: "get_patient_visit_history (visit_env headache chat) ''M1'' ''V1'' world0 =
        (Inr ?resp, snd (get_patient_visit_history (visit_env headache chat) ''M1'' ''V1'' world0))"
    for chat
    by (simp add: prod_eq_iff fetch_headache)
  have a: "fst (LLMService_anonymize (visit_env headache (ChatRaises timed_out))
                 (message ?resp) (7 / 10) u) = Inl timed_out" for u
    by (simp add: anonymize_result visit_env_def example_env_def)
  have b: "fst (LLMService_anonymize (visit_env headache (completion [None]))
                 (message ?resp) (7 / 10) u) = Inr None" for u
    by (simp add: anonymize_result visit_env_def example_env_def completion_def)
  have c: "fst (LLMService_anonymize
                 (visit_env headache (completion [Some ''Patient_001 reports headache'']))
                 (message ?resp) (7 / 10) u) = Inr (Some ''Patient_001 reports headache'')" for u
    by (simp add: anonymize_result visit_env_def example_env_def completion_def)
  show ?thesis
    using patient_visit_histories_paths[of not_found_env "''M1''" "''V1''" world0
        "Exn SimplexNotFoundError ''Resource not found in Simplex'' None"]
      patient_visit_histories_paths[of "visit_env headache (ChatRaises timed_out)"
        "''M1''" "''V1''" world0 _ ?resp
        "snd (get_patient_visit_history (visit_env headache (ChatRaises timed_out))
               ''M1'' ''V1'' world0)" timed_out]
      patient_visit_histories_paths[of "visit_env headache (completion [None])"
        "''M1''" "''V1''" world0 _ ?resp
        "snd (get_patient_visit_history (visit_env headache (completion [None]))
               ''M1'' ''V1'' world0)"]
      patient_visit_histories_paths[of
        "visit_env headache (completion [Some ''Patient_001 reports headache''])"
        "''M1''" "''V1''" world0 _ ?resp
        "snd (get_patient_visit_history
               (visit_env headache (completion [Some ''Patient_001 reports headache'']))
               ''M1'' ''V1'' world0)" _ "''Patient_001 reports headache''"]
      fetch_not_found f a b c
    by simp
qed

text \<open>
  Claim C7. Whenever the handler returns a response, that response is the fetched and
  validated one with at most its \<open>message\<close> replaced: the status flag and the list of
  records are those of the fetched response, in the same order, whether the anonymization
  succeeded or not.
\<close>

theorem patient_visit_histories_frame:
  "fst (patient_visit_histories e mrn visit w) = Returned r
   \<longrightarrow> (\<exists>resp. fst (get_patient_visit_history e mrn visit w) = Inr resp
          \<and> status r = status resp \<and> data r = data resp
          \<and> r = resp\<lparr>message := message r\<rparr>)"
  by (auto simp add: patient_visit_histories_result split: sum.splits option.splits)

lemma validate_visit_item: "validate_item visit_item = Some visit_record"
  by (simp add: validate_item_def visit_item_def visit_record_def required_def with_default_def)

lemma model_validate_visit:
  "model_validate headache_with_visit =
     Inr \<lparr>status = True, message = ''Patient reports headache'', data = [visit_record]\<rparr>"
  by (simp add: model_validate_def headache_with_visit_def required_def with_default_def
      validate_visit_item)

lemma fetch_visit:
  "fst (get_patient_visit_history (visit_env headache_with_visit chat) ''M1'' ''V1'' world0) =
     Inr \<lparr>status = True, message = ''Patient reports headache'', data = [visit_record]\<rparr>"
  by (simp add: get_patient_visit_history_result model_validate_visit
      request_2xx(1)[where sc = 200 and j = headache_with_visit] visit_env_def example_env_def)

theorem patient_visit_histories_frame_witness:
  "fst (patient_visit_histories
          (visit_env headache_with_visit (completion [Some ''Patient_001 reports headache'']))
          ''M1'' ''V1'' world0) =
     Returned \<lparr>status = True, message = ''Patient_001 reports headache'', data = [visit_record]\<rparr>
   \<and> fst (get_patient_visit_history
          (visit_env headache_with_visit (completion [Some ''Patient_001 reports headache'']))
          ''M1'' ''V1'' world0) =
     Inr \<lparr>status = True, message = ''Patient reports headache'', data = [visit_record]\<rparr>"
proof -
  let ?e = "visit_env headache_with_visit (completion [Some ''Patient_001 reports headache''])"
  have "fst (LLMService_anonymize ?e m (7 / 10) u) = Inr (Some ''Patient_001 reports headache'')"
    for m u
    by (simp add: anonymize_result visit_env_def example_env_def completion_def)
  then have a: "fst (patient_visit_histories ?e ''M1'' ''V1'' world0) =
     Returned \<lparr>status = True, message = ''Patient_001 reports headache'', data = [visit_record]\<rparr>"
    by (simp add: patient_visit_histories_result fetch_visit)
  show ?thesis
    using patient_visit_histories_frame[of ?e "''M1''" "''V1''" world0
        "\<lparr>status = True, message = ''Patient_001 reports headache'', data = [visit_record]\<rparr>"]
      a fetch_visit[of "completion [Some ''Patient_001 reports headache'']"]
    by simp
qed

section \<open>The anonymize handler\<close>






section \<open>Validation of the visit-history payload\<close>

lemma required_str_None:
  "required validate_str obj k = None \<longleftrightarrow> \<not> present is_string obj k"
  by (cases "map_of obj k"; simp add: required_def present_def;
      cases "the (map_of obj k)"; simp)

lemma required_str_Some:
  "required validate_str obj k = Some s \<longleftrightarrow> map_of obj k = Some (JStr s)"
  by (cases "map_of obj k"; simp add: required_def; cases "the (map_of obj k)"; simp)

lemma optional_str_None:
  "with_default None validate_optional_str obj k = None
     \<longleftrightarrow> \<not> absent_or is_string_or_null obj k"
  by (cases "map_of obj k"; simp add: with_default_def absent_or_def;
      cases "the (map_of obj k)"; simp)

lemma validate_item_None: "validate_item j = None \<longleftrightarrow> \<not> item_conforms j"
proof (cases j)
  case (JObj obj)
  show ?thesis
    unfolding JObj validate_item_def
    by (simp add: required_item_fields_def bind_eq_None_conv required_str_None[symmetric]
        optional_str_None[symmetric] disj_commute disj_left_commute)
qed (simp_all add: validate_item_def)

lemma those_map_None:
  "those (map f xs) = None \<longleftrightarrow> \<not> list_all (\<lambda>x. f x \<noteq> None) xs"
  by (induction xs) (auto split: option.splits)

lemma those_map_Some: "those (map f xs) = Some ys \<longleftrightarrow> map f xs = map Some ys"
  by (induction xs arbitrary: ys) (auto split: option.splits)

lemma validate_items_None: "validate_items v = None \<longleftrightarrow> \<not> items_conform v"
  by (cases v) (simp_all add: those_map_None validate_item_None)

lemma validate_bool_None: "validate_bool v = None \<longleftrightarrow> \<not> is_lax_bool v"
  by (cases v) (auto simp add: str_to_bool_def Let_def)

lemma result_Inl:
  "(case x of None \<Rightarrow> Inl v | Some r \<Rightarrow> Inr r) = Inl v' \<longleftrightarrow> x = None \<and> v = v'"
  by (cases x) auto

lemma result_Inr:
  "(case x of None \<Rightarrow> Inl v | Some r \<Rightarrow> Inr r) = Inr r' \<longleftrightarrow> x = Some r'"
  by (cases x) auto

lemma model_validate_conforms: "model_validate j = Inl validation_error \<longleftrightarrow> \<not> conforms j"
proof (cases j)
  case (JObj obj)
  have b: "required validate_bool obj ''status'' = None
             \<longleftrightarrow> \<not> present is_lax_bool obj ''status''"
    by (simp add: required_def present_def validate_bool_None split: option.splits)
  have d: "with_default [] validate_items obj ''data'' = None
             \<longleftrightarrow> \<not> absent_or items_conform obj ''data''"
    by (simp add: with_default_def absent_or_def validate_items_None split: option.splits)
  show ?thesis
    unfolding JObj model_validate_def
    by (simp add: result_Inl bind_eq_None_conv b[symmetric] d[symmetric]
        required_str_None[symmetric])
qed (simp_all add: model_validate_def)

lemma model_validate_error: "model_validate j = Inl x \<Longrightarrow> x = validation_error"
  by (auto simp add: model_validate_def split: json.splits option.splits)

lemma validate_bool_reads: "validate_bool v = Some b \<longleftrightarrow> reads_as v b"
  by (cases v) (auto simp add: str_to_bool_def Let_def ascii_lower_def)

lemma optional_str_Some:
  "with_default None validate_optional_str obj k = Some a \<Longrightarrow>
     a = (case map_of obj k of Some (JStr s) \<Rightarrow> Some s | _ \<Rightarrow> None)"
  by (cases "map_of obj k"; simp add: with_default_def; cases "the (map_of obj k)"; simp)

lemma validate_item_matches: "validate_item x = Some it \<Longrightarrow> item_matches x it"
proof (cases x)
  case (JObj obj)
  assume "validate_item x = Some it"
  then show ?thesis
    unfolding JObj validate_item_def
    by (auto simp add: bind_eq_Some_conv required_str_Some dest!: optional_str_Some)
qed (simp_all add: validate_item_def)

lemma map_validate_matches:
  "map validate_item xs = map Some ys \<Longrightarrow> list_all2 item_matches xs ys"
  by (induction xs arbitrary: ys) (auto simp add: validate_item_matches)

lemma model_validate_fields:
  assumes "model_validate j = Inr r"
  shows "\<exists>obj. j = JObj obj
           \<and> map_of obj ''message'' = Some (JStr (message r))
           \<and> (\<exists>v. map_of obj ''status'' = Some v \<and> reads_as v (status r))
           \<and> (case map_of obj ''data'' of
                None \<Rightarrow> data r = []
              | Some d \<Rightarrow> (\<exists>xs. d = JArr xs \<and> list_all2 item_matches xs (data r)))"
proof (cases j)
  case (JObj obj)
  from assms obtain s m d where
    s: "required validate_bool obj ''status'' = Some s" and
    m: "required validate_str obj ''message'' = Some m" and
    d: "with_default [] validate_items obj ''data'' = Some d" and
    r: "r = \<lparr>status = s, message = m, data = d\<rparr>"
    unfolding JObj model_validate_def
    by (auto simp add: result_Inr bind_eq_Some_conv)
  have "\<exists>v. map_of obj ''status'' = Some v \<and> reads_as v s"
    using s by (simp add: required_def validate_bool_reads split: option.splits)
  moreover have "map_of obj ''message'' = Some (JStr m)"
    using m by (simp add: required_str_Some)
  moreover have "case map_of obj ''data'' of
                   None \<Rightarrow> d = []
                 | Some v \<Rightarrow> (\<exists>xs. v = JArr xs \<and> list_all2 item_matches xs d)"
  proof (cases "map_of obj ''data''")
    case None
    then show ?thesis using d by (simp add: with_default_def)
  next
    case (Some v)
    then have "validate_items v = Some d"
      using d by (simp add: with_default_def)
    then show ?thesis
      using Some by (cases v) (simp_all add: those_map_Some map_validate_matches)
  qed
  ultimately show ?thesis
    using JObj r by (auto split: option.splits)
qed (use assms in \<open>simp_all add: model_validate_def\<close>)

lemma fetch_2xx:
  assumes "simplex_upstream e (length (simplex_sent w)) = Responds sc (Inr j)"
    and "200 \<le> sc" and "sc < 300"
  shows "fst (get_patient_visit_history e mrn visit w) = model_validate j"
    and "length (simplex_sent (snd (get_patient_visit_history e mrn visit w))) =
           length (simplex_sent w) + 1"
    and "slept (snd (get_patient_visit_history e mrn visit w)) = slept w"
proof -
  let ?w = "log_event Info ''Fetching patient visit history from Simplex v2'' w"
  have u: "simplex_upstream e (length (simplex_sent ?w)) = Responds sc (Inr j)"
    using assms(1) by (simp add: log_event_def)
  show "fst (get_patient_visit_history e mrn visit w) = model_validate j"
    by (simp add: get_patient_visit_history_result request_2xx(1)[OF u assms(2,3)])
  show "length (simplex_sent (snd (get_patient_visit_history e mrn visit w))) =
           length (simplex_sent w) + 1"
    unfolding get_patient_visit_history_world
    using request_2xx(2)[OF u assms(2,3)] by (simp add: log_event_def)
  show "slept (snd (get_patient_visit_history e mrn visit w)) = slept w"
    unfolding get_patient_visit_history_world
    using request_2xx(3)[OF u assms(2,3)] by (simp add: log_event_def)
qed

text \<open>
  Claim C9, as stated: a payload with a missing or wrongly-typed field never yields a
  defaulted record. Three payloads answer otherwise. The first has no \<open>data\<close> field, and
  the call returns a record whose \<open>data\<close> is the declared default, the empty list. The
  second holds one item that has no \<open>Patient_Visit_Registration_Note\<close>, and the record's
  note is the declared default, none. The third gives \<open>status\<close> as the string
  \<open>"yes"\<close>, not a boolean, and the call returns a record whose status is true.
\<close>

theorem validation_defaults_counterexample:
  "headache_without_data =
     JObj [(''status'', JBool True), (''message'', JStr ''Patient reports headache'')]
   \<and> fst (get_patient_visit_history (visit_env headache_without_data (ChatRaises timed_out))
            ''M1'' ''V1'' world0) =
       Inr \<lparr>status = True, message = ''Patient reports headache'', data = []\<rparr>
   \<and> present (\<lambda>v. True) (case visit_item of JObj obj \<Rightarrow> obj | _ \<Rightarrow> [])
          ''Patient_Visit_Registration_Note'' = False
   \<and> fst (get_patient_visit_history (visit_env headache_with_visit (ChatRaises timed_out))
            ''M1'' ''V1'' world0) =
       Inr \<lparr>status = True, message = ''Patient reports headache'', data = [visit_record]\<rparr>
   \<and> Patient_Visit_Registration_Note visit_record = None
   \<and> map_of (case headache_yes of JObj obj \<Rightarrow> obj | _ \<Rightarrow> []) ''status'' = Some (JStr ''yes'')
   \<and> fst (get_patient_visit_history (visit_env headache_yes (ChatRaises timed_out))
            ''M1'' ''V1'' world0) =
       Inr \<lparr>status = True, message = ''Patient reports headache'', data = []\<rparr>"
proof -
  have a: "model_validate headache_without_data =
          Inr \<lparr>status = True, message = ''Patient reports headache'', data = []\<rparr>"
    by (simp add: model_validate_def headache_without_data_def required_def with_default_def)
  have b: "model_validate headache_yes =
          Inr \<lparr>status = True, message = ''Patient reports headache'', data = []\<rparr>"
    by (simp add: model_validate_def headache_yes_def required_def with_default_def
        str_to_bool_def ascii_lower_def Let_def)
  have c: "fst (get_patient_visit_history (visit_env payload (ChatRaises timed_out))
                 ''M1'' ''V1'' world0) = model_validate payload" for payload
    by (rule fetch_2xx(1)[where sc = 200]) (simp_all add: visit_env_def example_env_def)
  show ?thesis
    by (simp add: c a b model_validate_visit)
      (simp add: headache_without_data_def headache_yes_def visit_item_def visit_record_def
        present_def)
qed

text \<open>
  Claim C9, amended. The payload that \<open>_request\<close> returns is validated before anything is
  returned. The call raises the validation error exactly when the payload does not conform:
  it is not an object, or \<open>status\<close> is missing or not a (lax) boolean, or \<open>message\<close> is
  missing or not a string, or \<open>data\<close> is present and not a list of objects that each hold
  the fifteen required fields as strings and a registration note that is absent, null or a
  string. A record that is returned is whole and says what the payload says: its message is
  the payload's string; its status is the boolean the payload's \<open>status\<close> stands for; and
  its data has one record for each item of the payload, in order, each field of a record
  being the string that the item holds under that name. The only defaults are the declared
  ones: an absent \<open>data\<close> is the empty list, and the registration note of a record is none
  when the item has no note (or a null one) and the item's string otherwise.
\<close>

theorem visit_history_validation:
  "(fst (request e
          \<lparr>http_method = ''GET'', url = ''/api/v2/patient-visit-histories'',
           params = [(''permanent_mrn_no'', mrn), (''permanent_visit_no'', visit)],
           json_body = None\<rparr>
          (log_event Info ''Fetching patient visit history from Simplex v2'' w)) = Inr j
    \<longrightarrow> (\<not> conforms j
           \<longrightarrow> fst (get_patient_visit_history e mrn visit w) = Inl validation_error)
        \<and> (conforms j
           \<longrightarrow> (\<exists>r obj. fst (get_patient_visit_history e mrn visit w) = Inr r
                  \<and> j = JObj obj
                  \<and> map_of obj ''message'' = Some (JStr (message r))
                  \<and> (\<exists>v. map_of obj ''status'' = Some v \<and> reads_as v (status r))
                  \<and> (case map_of obj ''data'' of
                       None \<Rightarrow> data r = []
                     | Some d \<Rightarrow>
                         (\<exists>xs. d = JArr xs \<and> list_all2 item_matches xs (data r))))))
   \<and> exn_class validation_error = ValidationError"
proof (intro conjI impI)
  assume p: "fst (request e
          \<lparr>http_method = ''GET'', url = ''/api/v2/patient-visit-histories'',
           params = [(''permanent_mrn_no'', mrn), (''permanent_visit_no'', visit)],
           json_body = None\<rparr>
          (log_event Info ''Fetching patient visit history from Simplex v2'' w)) = Inr j"
  then have g: "fst (get_patient_visit_history e mrn visit w) = model_validate j"
    by (simp add: get_patient_visit_history_result)
  {
    assume "\<not> conforms j"
    then show "fst (get_patient_visit_history e mrn visit w) = Inl validation_error"
      using g by (simp add: model_validate_conforms)
  }
  {
    assume "conforms j"
    then have "model_validate j \<noteq> Inl validation_error"
      by (simp add: model_validate_conforms)
    then obtain r where r: "model_validate j = Inr r"
      using model_validate_error[of j] by (cases "model_validate j") auto
    then show "\<exists>r obj. fst (get_patient_visit_history e mrn visit w) = Inr r
                  \<and> j = JObj obj
                  \<and> map_of obj ''message'' = Some (JStr (message r))
                  \<and> (\<exists>v. map_of obj ''status'' = Some v \<and> reads_as v (status r))
                  \<and> (case map_of obj ''data'' of
                       None \<Rightarrow> data r = []
                     | Some d \<Rightarrow>
                         (\<exists>xs. d = JArr xs \<and> list_all2 item_matches xs (data r)))"
      using model_validate_fields[OF r] g by auto
  }
next
  show "exn_class validation_error = ValidationError"
    by (simp add: validation_error_def)
qed

theorem visit_history_validation_witness:
  "conforms two_visits
   \<and> fst (get_patient_visit_history (visit_env two_visits (ChatRaises timed_out))
            ''M1'' ''V1'' world0) =
       Inr \<lparr>status = True, message = ''Patient reports headache'',
            data = [visit_record\<lparr>Patient_Visit_Registration_Note := Some ''walk-in''\<rparr>,
                    visit_record]\<rparr>
   \<and> item_matches noted_item (visit_record\<lparr>Patient_Visit_Registration_Note := Some ''walk-in''\<rparr>)
   \<and> item_matches visit_item visit_record
   \<and> \<not> item_matches visit_item (visit_record\<lparr>Patient_Visit_Registration_Note := Some ''walk-in''\<rparr>)
   \<and> \<not> item_matches noted_item visit_record
   \<and> \<not> conforms status_only
   \<and> fst (get_patient_visit_history (visit_env status_only (ChatRaises timed_out))
            ''M1'' ''V1'' world0) = Inl validation_error"
proof -
  let ?rq = "\<lparr>http_method = ''GET'', url = ''/api/v2/patient-visit-histories'',
              params = [(''permanent_mrn_no'', ''M1''), (''permanent_visit_no'', ''V1'')],
              json_body = None\<rparr>"
  let ?w = "log_event Info ''Fetching patient visit history from Simplex v2'' world0"
  have a: "conforms two_visits"
    by (simp add: two_visits_def noted_item_def visit_item_def required_item_fields_def
        present_def absent_or_def)
  have b: "\<not> conforms status_only"
    by (simp add: status_only_def present_def)
  have c: "fst (request (visit_env payload (ChatRaises timed_out)) ?rq ?w) = Inr payload"
    for payload
    by (rule request_2xx(1)[where sc = 200]) (simp_all add: visit_env_def example_env_def)
  have n: "validate_item noted_item =
             Some (visit_record\<lparr>Patient_Visit_Registration_Note := Some ''walk-in''\<rparr>)"
    by (simp add: validate_item_def noted_item_def visit_item_def visit_record_def
        required_def with_default_def)
  have m: "model_validate two_visits =
       Inr \<lparr>status = True, message = ''Patient reports headache'',
            data = [visit_record\<lparr>Patient_Visit_Registration_Note := Some ''walk-in''\<rparr>,
                    visit_record]\<rparr>"
    by (simp add: model_validate_def two_visits_def required_def with_default_def n
        validate_visit_item)
  have f: "fst (get_patient_visit_history (visit_env two_visits (ChatRaises timed_out))
                 ''M1'' ''V1'' world0) = model_validate two_visits"
    by (rule fetch_2xx(1)[where sc = 200]) (simp_all add: visit_env_def example_env_def)
  have i: "item_matches noted_item (visit_record\<lparr>Patient_Visit_Registration_Note := Some ''walk-in''\<rparr>)"
    "item_matches visit_item visit_record"
    "\<not> item_matches visit_item (visit_record\<lparr>Patient_Visit_Registration_Note := Some ''walk-in''\<rparr>)"
    "\<not> item_matches noted_item visit_record"
    by (simp_all add: noted_item_def visit_item_def visit_record_def)
  show ?thesis
    using visit_history_validation[of "visit_env two_visits (ChatRaises timed_out)"
        "''M1''" "''V1''" world0 two_visits]
      visit_history_validation[of "visit_env status_only (ChatRaises timed_out)"
        "''M1''" "''V1''" world0 status_only]
      a b c f m i
    by simp
qed

section \<open>Validation and the retry budget\<close>

text \<open>
  Claim C10. When the upstream answers the first request with a 2xx status and a body that
  is valid JSON but does not conform to the visit-history shape, the call raises the
  validation error after exactly one upstream request and without sleeping: validation runs
  on what \<open>_request\<close> returned, outside the retry wrapper. The validation error is none of
  the six Simplex failure variants, and the retry predicate does not match it.
\<close>

theorem validation_outside_retry:
  "simplex_upstream e (length (simplex_sent w)) = Responds sc (Inr j)
     \<and> 200 \<le> sc \<and> sc < 300 \<and> \<not> conforms j
   \<longrightarrow> fst (get_patient_visit_history e mrn visit w) = Inl validation_error
       \<and> length (simplex_sent (snd (get_patient_visit_history e mrn visit w))) =
           length (simplex_sent w) + 1
       \<and> slept (snd (get_patient_visit_history e mrn visit w)) = slept w
       \<and> exn_class validation_error = ValidationError
       \<and> failure_of (exn_class validation_error) = None
       \<and> \<not> retry simplex_retry validation_error"
proof (intro impI)
  assume h: "simplex_upstream e (length (simplex_sent w)) = Responds sc (Inr j)
     \<and> 200 \<le> sc \<and> sc < 300 \<and> \<not> conforms j"
  then have u: "simplex_upstream e (length (simplex_sent w)) = Responds sc (Inr j)"
    and lo: "200 \<le> sc" and hi: "sc < 300" and nc: "\<not> conforms j"
    by simp_all
  have "model_validate j = Inl validation_error"
    using nc by (simp add: model_validate_conforms)
  then show "fst (get_patient_visit_history e mrn visit w) = Inl validation_error
       \<and> length (simplex_sent (snd (get_patient_visit_history e mrn visit w))) =
           length (simplex_sent w) + 1
       \<and> slept (snd (get_patient_visit_history e mrn visit w)) = slept w
       \<and> exn_class validation_error = ValidationError
       \<and> failure_of (exn_class validation_error) = None
       \<and> \<not> retry simplex_retry validation_error"
    using fetch_2xx[OF u lo hi, of mrn visit] by (simp add: validation_error_def)
qed

theorem validation_outside_retry_witness:
  "simplex_upstream (visit_env status_only (ChatRaises timed_out)) (length (simplex_sent world0)) =
     Responds 200 (Inr status_only)
   \<and> \<not> conforms status_only
   \<and> fst (get_patient_visit_history (visit_env status_only (ChatRaises timed_out))
            ''M1'' ''V1'' world0) = Inl validation_error
   \<and> length (simplex_sent (snd (get_patient_visit_history
                (visit_env status_only (ChatRaises timed_out)) ''M1'' ''V1'' world0))) = 1
   \<and> slept (snd (get_patient_visit_history
                (visit_env status_only (ChatRaises timed_out)) ''M1'' ''V1'' world0)) = []"
proof -
  have a: "simplex_upstream (visit_env status_only (ChatRaises timed_out))
             (length (simplex_sent world0)) = Responds 200 (Inr status_only)"
    by (simp add: visit_env_def example_env_def)
  have b: "\<not> conforms status_only"
    by (simp add: status_only_def present_def)
  show ?thesis
    using validation_outside_retry[of "visit_env status_only (ChatRaises timed_out)" world0
        200 status_only "''M1''" "''V1''"] a b
    by (simp add: world0_def)
qed

end
